theory Spec2Isabelle
  imports Main "HOL-Library.Multiset"
begin

section \<open>Data model (types.ts)\<close>

text \<open>
  The enums \<^verbatim>\<open>Carrier\<close> and \<^verbatim>\<open>PackageStatus\<close> of the source are closed sets of
  string constants; only their identity matters to the reconciliation logic, so each
  becomes a datatype with one constructor per member.
\<close>

datatype Carrier = POSTNORD | GLS | DAO | BRING | DHL | UPS | FEDEX | OTHER

datatype PackageStatus = IN_TRANSIT | READY_FOR_PICKUP | PICKED_UP

text \<open>
  \<^verbatim>\<open>interface Package\<close>. The field \<^verbatim>\<open>id\<close> is named \<open>id_pkg\<close> here, since \<open>id\<close> is the
  identity function of HOL. All fields are non-nullable strings or enum members in the
  source type.
\<close>

record Package =
  id_pkg :: string
  trackingNumber :: string
  carrier :: Carrier
  sender :: string
  status :: PackageStatus
  receivedDate :: string
  originalText :: string
  lastUpdated :: string

text \<open>
  \<^verbatim>\<open>interface ParseResult\<close>: \<^verbatim>\<open>trackingNumber\<close> and \<^verbatim>\<open>sender\<close> are \<^verbatim>\<open>string | null\<close>, modelled
  as \<open>string option\<close>. The fields carry the suffix \<open>_res\<close> to keep them apart from the
  fields of \<open>Package\<close>. A missing (undefined) field and a null one are both \<open>None\<close>.
\<close>

record ParseResult =
  trackingNumber_res :: "string option"
  carrier_res :: Carrier
  sender_res :: "string option"
  status_res :: PackageStatus

text \<open>\<^verbatim>\<open>type TabType = 'current' | 'history' | 'settings' | 'map'\<close> (App.tsx).\<close>

datatype TabType = Tab_current | Tab_history | Tab_settings | Tab_map

section \<open>JavaScript primitives used by the reconciliation code\<close>

text \<open>
  Truthiness of a \<^verbatim>\<open>string | null\<close> value: \<^verbatim>\<open>null\<close>, \<^verbatim>\<open>undefined\<close> and the empty string
  are falsy, every other string (also one of blanks only) is truthy.
\<close>

fun truthy :: "string option \<Rightarrow> bool" where
  "truthy None = False"
| "truthy (Some s) = (s \<noteq> [])"

text \<open>\<^verbatim>\<open>a || b\<close> where \<^verbatim>\<open>a\<close> is \<^verbatim>\<open>string | null\<close> and \<^verbatim>\<open>b\<close> is a string.\<close>

fun orElse :: "string option \<Rightarrow> string \<Rightarrow> string" where
  "orElse None b = b"
| "orElse (Some a) b = (if a = [] then b else a)"

text \<open>
  \<^verbatim>\<open>Array.prototype.findIndex\<close>: the index of the first element that satisfies the
  predicate, scanning from index 0 upwards, and \<open>-1\<close> when there is none.
  \<open>findIndex_from\<close> is the scan with its running index.
\<close>

fun findIndex_from :: "('a \<Rightarrow> bool) \<Rightarrow> 'a list \<Rightarrow> int \<Rightarrow> int" where
  "findIndex_from P [] k = - 1"
| "findIndex_from P (x # xs) k = (if P x then k else findIndex_from P xs (k + 1))"

definition findIndex :: "('a \<Rightarrow> bool) \<Rightarrow> 'a list \<Rightarrow> int" where
  "findIndex P xs = findIndex_from P xs 0"

section \<open>The reconciliation engine (App.tsx, processParsedResult)\<close>

text \<open>
  The placeholder sender of the create path, the string literal of line 54 of App.tsx:
  the letters \<open>Leverand\<close>, the letter o with stroke (code point \<open>0xF8\<close>), and \<open>r\<close>.
\<close>

definition placeholder_sender :: string where
  "placeholder_sender = ''Leverand'' @ [CHR 0xF8] @ ''r''"

text \<open>
  The source function works on two collections, and the model keeps them apart:
  \<^item> \<open>packages\<close> is the constant \<^verbatim>\<open>packages\<close> the function closes over: the state as it was
    at the render that created the handler. The handlers call the function after
    \<^verbatim>\<open>await parsePackageText(...)\<close> or \<^verbatim>\<open>await parsePackageImage(...)\<close>, so this snapshot is
    as old as the click or the file pick. The lookup (line 38) reads it, and the update
    path (lines 41 to 48) copies it, changes one entry and makes the copy the new state
    with \<^verbatim>\<open>setPackages(updatedPackages)\<close>.
  \<^item> \<open>prev\<close> is the state at the moment of the call. The create path (line 60) is the
    functional update \<^verbatim>\<open>setPackages(prev => [newPkg, ...prev])\<close>, and when the result is
    rejected no \<^verbatim>\<open>setPackages\<close> runs, so the state stays \<open>prev\<close>.
  The function returns the new state beside the boolean of the source. The two ambient
  effects are arguments too:
  \<^item> \<open>clock k\<close> is what the \<open>k\<close>-th evaluation (from 0) of \<^verbatim>\<open>new Date().toISOString()\<close>
    within the call returns: the update path reads the clock once, the create path twice
    (\<^verbatim>\<open>receivedDate\<close> first, \<^verbatim>\<open>lastUpdated\<close> second);
  \<^item> \<open>rnd\<close> is the string \<^verbatim>\<open>Math.random().toString(36).substr(2, 9)\<close> evaluates to.
  The result \<^verbatim>\<open>result\<close> may be null, hence \<open>ParseResult option\<close>.
\<close>

definition processParsedResult ::
  "(nat \<Rightarrow> string) \<Rightarrow> string \<Rightarrow> Package list \<Rightarrow> Package list \<Rightarrow> ParseResult option
     \<Rightarrow> string \<Rightarrow> Package list \<times> bool" where
  "processParsedResult clock rnd packages prev result sourceText =
     (case result of
        None \<Rightarrow> (prev, False)
      | Some r \<Rightarrow>
          if truthy (trackingNumber_res r) then
            let tn = the (trackingNumber_res r);
                existingIndex = findIndex (\<lambda>p. trackingNumber p = tn) packages
            in
              if existingIndex > - 1 then
                let updatedPackages = packages;
                    i = nat existingIndex
                in (updatedPackages[i := (updatedPackages ! i)
                       \<lparr>status := status_res r,
                        sender := orElse (sender_res r) (sender (updatedPackages ! i)),
                        lastUpdated := clock 0\<rparr>], True)
              else
                (\<lparr>id_pkg = rnd,
                  trackingNumber = tn,
                  carrier = carrier_res r,
                  sender = orElse (sender_res r) placeholder_sender,
                  status = status_res r,
                  receivedDate = clock 0,
                  originalText = sourceText,
                  lastUpdated = clock 1\<rparr> # prev, True)
          else (prev, False))"

section \<open>Status toggle, deletion and view filter (App.tsx, the render of the list)\<close>

text \<open>
  The handlers of the list are functional updates: they work on the state at the moment
  they run.

  \<^verbatim>\<open>onToggleStatus={(id) => setPackages(prev => prev.map(p => p.id === id ? {...p, status:
  p.status === PICKED_UP ? READY_FOR_PICKUP : PICKED_UP} : p))}\<close>
\<close>

definition onToggleStatus :: "string \<Rightarrow> Package list \<Rightarrow> Package list" where
  "onToggleStatus i prev =
     map (\<lambda>p. if id_pkg p = i
               then p\<lparr>status := (if status p = PICKED_UP then READY_FOR_PICKUP else PICKED_UP)\<rparr>
               else p) prev"

text \<open>\<^verbatim>\<open>onDelete={(id) => setPackages(prev => prev.filter(p => p.id !== id))}\<close>\<close>

definition onDelete :: "string \<Rightarrow> Package list \<Rightarrow> Package list" where
  "onDelete i prev = filter (\<lambda>p. id_pkg p \<noteq> i) prev"

text \<open>
  \<^verbatim>\<open>filteredPackages\<close>: the tab \<^verbatim>\<open>'current'\<close> keeps the packages that are not picked up, every
  other tab value keeps the picked-up ones.
\<close>

definition filteredPackages :: "TabType \<Rightarrow> Package list \<Rightarrow> Package list" where
  "filteredPackages activeTab packages =
     filter (\<lambda>p. if activeTab = Tab_current
                  then status p \<noteq> PICKED_UP
                  else status p = PICKED_UP) packages"

section \<open>Sample data\<close>

text \<open>
  A small collection and four extraction results, used to instantiate the theorems below:
  a result that matches the second package and omits the sender, a result with a new
  tracking number, a result whose tracking number is a single blank, and a result
  without a tracking number.
\<close>

definition sample_packages :: "Package list" where
  "sample_packages =
     [\<lparr>id_pkg = ''q1w2e3r4t'', trackingNumber = ''PN777'', carrier = POSTNORD,
        sender = ''Boghandel'', status = PICKED_UP,
        receivedDate = ''2024-04-02T08:15:00.000Z'', originalText = ''Din pakke er afhentet'',
        lastUpdated = ''2024-04-03T17:40:00.000Z''\<rparr>,
      \<lparr>id_pkg = ''z9y8x7w6v'', trackingNumber = ''TNT123'', carrier = GLS,
        sender = ''ACME'', status = IN_TRANSIT,
        receivedDate = ''2024-04-28T09:00:00.000Z'', originalText = ''hello'',
        lastUpdated = ''2024-04-28T09:00:00.000Z''\<rparr>,
      \<lparr>id_pkg = ''m5n6b7v8c'', trackingNumber = ''DAO42'', carrier = DAO,
        sender = ''Leverand'' @ [CHR 0xF8] @ ''r'', status = READY_FOR_PICKUP,
        receivedDate = ''2024-04-30T12:30:00.000Z'', originalText = ''Screenshot: dao.png'',
        lastUpdated = ''2024-04-30T12:30:00.000Z''\<rparr>]"

definition sample_match :: ParseResult where
  "sample_match = \<lparr>trackingNumber_res = Some ''TNT123'', carrier_res = GLS,
                    sender_res = None, status_res = READY_FOR_PICKUP\<rparr>"

definition sample_new :: ParseResult where
  "sample_new = \<lparr>trackingNumber_res = Some ''BR900'', carrier_res = BRING,
                  sender_res = Some ''Butik'', status_res = IN_TRANSIT\<rparr>"

definition sample_blank :: ParseResult where
  "sample_blank = \<lparr>trackingNumber_res = Some '' '', carrier_res = OTHER,
                    sender_res = Some [], status_res = IN_TRANSIT\<rparr>"

definition sample_untracked :: ParseResult where
  "sample_untracked = \<lparr>trackingNumber_res = None, carrier_res = OTHER,
                        sender_res = None, status_res = IN_TRANSIT\<rparr>"

text \<open>Two successive readings of the clock, and a generated identifier.\<close>

definition sample_clock :: "nat \<Rightarrow> string" where
  "sample_clock k = (if k = 0 then ''2024-05-01T10:00:00.000Z''
                     else ''2024-05-01T10:00:00.001Z'')"

definition sample_rnd :: string where
  "sample_rnd = ''k3x9q2m1z''"

lemmas sample_defs = sample_packages_def sample_match_def sample_new_def sample_blank_def
  sample_untracked_def sample_clock_def sample_rnd_def

section \<open>Facts about the scan\<close>

lemma findIndex_from_takeWhile:
  "findIndex_from P xs k =
     (if \<exists>x \<in> set xs. P x then k + int (length (takeWhile (\<lambda>x. \<not> P x) xs)) else - 1)"
  by (induction xs arbitrary: k) auto

lemma findIndex_takeWhile:
  "findIndex P xs =
     (if \<exists>x \<in> set xs. P x then int (length (takeWhile (\<lambda>x. \<not> P x) xs)) else - 1)"
  by (simp add: findIndex_def findIndex_from_takeWhile)

lemma findIndex_absent:
  assumes "\<forall>x \<in> set xs. \<not> P x"
  shows "findIndex P xs = - 1"
  using assms by (simp add: findIndex_takeWhile)

lemma findIndex_present:
  assumes "\<exists>x \<in> set xs. P x"
  shows "findIndex P xs > - 1"
    and "nat (findIndex P xs) < length xs"
    and "P (xs ! nat (findIndex P xs))"
    and "\<forall>j < nat (findIndex P xs). \<not> P (xs ! j)"
proof -
  let ?n = "length (takeWhile (\<lambda>x. \<not> P x) xs)"
  from assms have eq: "findIndex P xs = int ?n"
    by (simp add: findIndex_takeWhile)
  then show "findIndex P xs > - 1" by simp
  from assms have "takeWhile (\<lambda>x. \<not> P x) xs \<noteq> xs"
    by (metis (mono_tags, lifting) takeWhile_eq_all_conv)
  moreover have "?n \<le> length xs" by (rule length_takeWhile_le)
  ultimately have lt: "?n < length xs"
    by (metis le_neq_implies_less takeWhile_eq_take take_all order_refl)
  with eq show "nat (findIndex P xs) < length xs" by simp
  from nth_length_takeWhile [OF lt] eq show "P (xs ! nat (findIndex P xs))" by simp
  show "\<forall>j < nat (findIndex P xs). \<not> P (xs ! j)"
  proof (intro allI impI)
    fix j assume "j < nat (findIndex P xs)"
    with eq have j: "j < ?n" by simp
    then have "takeWhile (\<lambda>x. \<not> P x) xs ! j = xs ! j" by (rule takeWhile_nth)
    moreover from j have "takeWhile (\<lambda>x. \<not> P x) xs ! j \<in> set (takeWhile (\<lambda>x. \<not> P x) xs)"
      by (rule nth_mem)
    ultimately show "\<not> P (xs ! j)" by (metis set_takeWhileD)
  qed
qed

lemma findIndex_from_map:
  "findIndex_from (\<lambda>p. f p = v) xs k = findIndex_from (\<lambda>y. y = v) (map f xs) k"
  by (induction xs arbitrary: k) auto

lemma findIndex_map:
  "findIndex (\<lambda>p. f p = v) xs = findIndex (\<lambda>y. y = v) (map f xs)"
  unfolding findIndex_def by (rule findIndex_from_map)

section \<open>Facts about the three paths of processParsedResult\<close>

lemma orElse_truthy: "orElse s d = (if truthy s then the s else d)"
  by (cases s) auto

lemma orElse_idem: "orElse s (orElse s d) = orElse s d"
  by (cases s) auto

lemma ppr_reject:
  assumes "result = None \<or> \<not> truthy (trackingNumber_res (the result))"
  shows "processParsedResult clock rnd ps prev result src = (prev, False)"
  using assms by (auto simp: processParsedResult_def split: option.splits)

lemma ppr_create:
  assumes "trackingNumber_res r = Some tn" and "tn \<noteq> []"
    and "\<forall>p \<in> set ps. trackingNumber p \<noteq> tn"
  shows "processParsedResult clock rnd ps prev (Some r) src =
     (\<lparr>id_pkg = rnd, trackingNumber = tn, carrier = carrier_res r,
       sender = orElse (sender_res r) placeholder_sender, status = status_res r,
       receivedDate = clock 0, originalText = src, lastUpdated = clock 1\<rparr> # prev, True)"
proof -
  from assms(3) have "findIndex (\<lambda>p. trackingNumber p = tn) ps = - 1"
    by (intro findIndex_absent) simp
  with assms(1,2) show ?thesis
    by (simp add: processParsedResult_def)
qed

lemma ppr_update:
  assumes "trackingNumber_res r = Some tn" and "tn \<noteq> []"
    and "\<exists>p \<in> set ps. trackingNumber p = tn"
  shows "processParsedResult clock rnd ps prev (Some r) src =
     (ps[nat (findIndex (\<lambda>p. trackingNumber p = tn) ps) :=
           (ps ! nat (findIndex (\<lambda>p. trackingNumber p = tn) ps))
             \<lparr>status := status_res r,
              sender := orElse (sender_res r)
                 (sender (ps ! nat (findIndex (\<lambda>p. trackingNumber p = tn) ps))),
              lastUpdated := clock 0\<rparr>], True)"
proof -
  from assms(3) have "findIndex (\<lambda>p. trackingNumber p = tn) ps > - 1"
    by (rule findIndex_present(1))
  with assms(1,2) show ?thesis
    by (simp add: processParsedResult_def Let_def)
qed

lemma ppr_update_tracking:
  assumes "trackingNumber_res r = Some tn" and "tn \<noteq> []"
    and "\<exists>p \<in> set ps. trackingNumber p = tn"
  shows "map trackingNumber (fst (processParsedResult clock rnd ps prev (Some r) src))
           = map trackingNumber ps"
proof -
  let ?i = "nat (findIndex (\<lambda>p. trackingNumber p = tn) ps)"
  from assms(3) have "?i < length ps" by (rule findIndex_present(2))
  then show ?thesis
    unfolding ppr_update [OF assms] by (simp add: map_update list_update_same_conv)
qed

lemma ppr_update_findIndex:
  assumes "trackingNumber_res r = Some tn" and "tn \<noteq> []"
    and "\<exists>p \<in> set ps. trackingNumber p = tn"
  shows "findIndex (\<lambda>p. trackingNumber p = tn)
            (fst (processParsedResult clock rnd ps prev (Some r) src))
           = findIndex (\<lambda>p. trackingNumber p = tn) ps"
  using ppr_update_tracking [OF assms, of clock rnd prev src]
  by (simp add: findIndex_map [of trackingNumber])

lemma ppr_cases:
  fixes result :: "ParseResult option" and ps :: "Package list"
  obtains (reject) "result = None \<or> \<not> truthy (trackingNumber_res (the result))"
  | (create) r tn where "result = Some r" "trackingNumber_res r = Some tn" "tn \<noteq> []"
      "\<forall>p \<in> set ps. trackingNumber p \<noteq> tn"
  | (update) r tn where "result = Some r" "trackingNumber_res r = Some tn" "tn \<noteq> []"
      "\<exists>p \<in> set ps. trackingNumber p = tn"
proof (cases result)
  case None
  then show ?thesis using reject by simp
next
  case (Some r)
  show ?thesis
  proof (cases "trackingNumber_res r")
    case None
    with Some show ?thesis using reject by simp
  next
    case tn: (Some tn)
    show ?thesis
    proof (cases "tn = []")
      case True
      with Some tn show ?thesis using reject by simp
    next
      case False
      with Some tn show ?thesis using create [of r tn] update [of r tn] by blast
    qed
  qed
qed

lemma ppr_accepted:
  fixes result :: "ParseResult option" and ps prev :: "Package list"
  shows "snd (processParsedResult clock rnd ps prev result src)
     = (result \<noteq> None \<and> truthy (trackingNumber_res (the result)))"
  by (auto simp: processParsedResult_def Let_def split: option.splits)

text \<open>
  The tracking numbers of the new state: those of the state with the new one in front
  (create), those of the snapshot (update), or those of the state (rejection).
\<close>

lemma ppr_tracking_numbers:
  fixes result :: "ParseResult option" and ps prev :: "Package list"
  shows "map trackingNumber (fst (processParsedResult clock rnd ps prev result src))
     = (if snd (processParsedResult clock rnd ps prev result src)
        then (if the (trackingNumber_res (the result)) \<in> trackingNumber ` set ps
              then map trackingNumber ps
              else the (trackingNumber_res (the result)) # map trackingNumber prev)
        else map trackingNumber prev)"
proof (cases rule: ppr_cases [where result = result and ps = ps])
  case reject
  then show ?thesis by (simp add: ppr_reject)
next
  case (create r tn)
  from create(4) have "tn \<notin> trackingNumber ` set ps" by auto
  with create(1,2) show ?thesis
    unfolding create(1) ppr_create [OF create(2-4)] by simp
next
  case (update r tn)
  from update(4) have "tn \<in> trackingNumber ` set ps" by auto
  with update(1-3) ppr_update_tracking [OF update(2-4), of clock rnd prev src]
  show ?thesis by (simp add: ppr_accepted)
qed

section \<open>Facts about the status toggle\<close>

lemma toggle_nth:
  assumes "k < length packages"
  shows "onToggleStatus i packages ! k =
     (if id_pkg (packages ! k) = i
      then (packages ! k)\<lparr>status := (if status (packages ! k) = PICKED_UP
                                       then READY_FOR_PICKUP else PICKED_UP)\<rparr>
      else packages ! k)"
  using assms by (simp add: onToggleStatus_def)

lemma toggle_length: "length (onToggleStatus i packages) = length packages"
  by (simp add: onToggleStatus_def)

section \<open>The engine when the snapshot is the state\<close>

text \<open>
  When no state change lies between the render that created the handler and the call,
  snapshot and state are the same collection. The facts of this section are about that
  case only: the function is then applied as \<open>processParsedResult clock rnd ps ps\<close>.
\<close>

text \<open>
  Creation: a non-empty tracking number that no package has puts a new package in front of
  the collection and leaves the others as they are.
\<close>

lemma create_when_snapshot_is_state:
  assumes "trackingNumber_res r = Some tn" and "tn \<noteq> []"
    and "\<forall>p \<in> set ps. trackingNumber p \<noteq> tn"
  shows "\<exists>newPkg.
           processParsedResult clock rnd ps ps (Some r) src = (newPkg # ps, True)
         \<and> trackingNumber newPkg = tn
         \<and> carrier newPkg = carrier_res r
         \<and> status newPkg = status_res r
         \<and> originalText newPkg = src
         \<and> receivedDate newPkg = clock 0
         \<and> lastUpdated newPkg = clock 1
         \<and> id_pkg newPkg = rnd
         \<and> sender newPkg = (if truthy (sender_res r) then the (sender_res r)
                              else placeholder_sender)"
  unfolding ppr_create [OF assms] by (simp add: orElse_truthy)

text \<open>
  Update: a tracking number that a package has changes status, sender (if the result has
  one) and \<^verbatim>\<open>lastUpdated\<close> of the first such package, in place.
\<close>

lemma update_when_snapshot_is_state:
  assumes "trackingNumber_res r = Some tn" and "tn \<noteq> []"
    and "\<exists>p \<in> set ps. trackingNumber p = tn"
  shows "\<exists>i < length ps.
           trackingNumber (ps ! i) = tn
         \<and> (\<forall>j < i. trackingNumber (ps ! j) \<noteq> tn)
         \<and> processParsedResult clock rnd ps ps (Some r) src
            = (ps[i := (ps ! i)\<lparr>status := status_res r,
                   sender := (if truthy (sender_res r) then the (sender_res r)
                              else sender (ps ! i)),
                   lastUpdated := clock 0\<rparr>], True)"
proof -
  let ?i = "nat (findIndex (\<lambda>p. trackingNumber p = tn) ps)"
  note found = findIndex_present [of ps "\<lambda>p. trackingNumber p = tn", OF assms(3)]
  have "?i < length ps" by (rule found(2))
  moreover have "trackingNumber (ps ! ?i) = tn" by (rule found(3))
  moreover have "\<forall>j < ?i. trackingNumber (ps ! j) \<noteq> tn" by (rule found(4))
  ultimately show ?thesis
    unfolding ppr_update [OF assms]
    by (intro exI [of _ ?i]) (simp add: orElse_truthy)
qed

text \<open>
  A second call with the same result, whose snapshot is the state the first call left,
  leaves that state as it is when the clock stands still: whatever the first call did,
  the second one finds the package and rewrites it with the same fields.
\<close>

lemma again_after_create:
  assumes "trackingNumber_res r = Some tn" and "tn \<noteq> []"
    and "\<forall>p \<in> set ps. trackingNumber p \<noteq> tn"
  shows "processParsedResult (\<lambda>k. t) rnd'
           (fst (processParsedResult (\<lambda>k. t) rnd ps prev (Some r) src)) prev' (Some r) src'
         = processParsedResult (\<lambda>k. t) rnd ps prev (Some r) src"
proof -
  let ?new = "\<lparr>id_pkg = rnd, trackingNumber = tn, carrier = carrier_res r,
       sender = orElse (sender_res r) placeholder_sender, status = status_res r,
       receivedDate = t, originalText = src, lastUpdated = t\<rparr>"
  have first: "processParsedResult (\<lambda>k. t) rnd ps prev (Some r) src = (?new # prev, True)"
    using ppr_create [OF assms, of "\<lambda>k. t" rnd prev src] by simp
  have ex: "\<exists>p \<in> set (?new # prev). trackingNumber p = tn" by simp
  have idx: "findIndex (\<lambda>p. trackingNumber p = tn) (?new # prev) = 0"
    by (simp add: findIndex_def)
  show ?thesis
    unfolding first fst_conv ppr_update [OF assms(1,2) ex] idx
    by (simp add: orElse_idem)
qed

lemma again_after_update:
  assumes "trackingNumber_res r = Some tn" and "tn \<noteq> []"
    and "\<exists>p \<in> set ps. trackingNumber p = tn"
  shows "processParsedResult (\<lambda>k. t) rnd'
           (fst (processParsedResult (\<lambda>k. t) rnd ps prev (Some r) src)) prev' (Some r) src'
         = processParsedResult (\<lambda>k. t) rnd ps prev (Some r) src"
proof -
  let ?ps1 = "fst (processParsedResult (\<lambda>k. t) rnd ps prev (Some r) src)"
  let ?i = "nat (findIndex (\<lambda>p. trackingNumber p = tn) ps)"
  have lt: "?i < length ps" using assms(3) by (rule findIndex_present(2))
  have "set (map trackingNumber ?ps1) = set (map trackingNumber ps)"
    by (simp only: ppr_update_tracking [OF assms])
  with assms(3) have ex1: "\<exists>p \<in> set ?ps1. trackingNumber p = tn"
    by (metis (no_types, lifting) image_iff list.set_map)
  have idx: "findIndex (\<lambda>p. trackingNumber p = tn) ?ps1
               = findIndex (\<lambda>p. trackingNumber p = tn) ps"
    by (rule ppr_update_findIndex [OF assms])
  have "processParsedResult (\<lambda>k. t) rnd' ?ps1 prev' (Some r) src'
      = (?ps1[?i := (?ps1 ! ?i)\<lparr>status := status_res r,
              sender := orElse (sender_res r) (sender (?ps1 ! ?i)),
              lastUpdated := t\<rparr>], True)"
    using ppr_update [OF assms(1,2) ex1, of "\<lambda>k. t" rnd' prev' src'] unfolding idx by simp
  also have "\<dots> = processParsedResult (\<lambda>k. t) rnd ps prev (Some r) src"
    using lt unfolding ppr_update [OF assms] fst_conv
    by (simp add: orElse_idem)
  finally show ?thesis .
qed

lemma again_when_snapshot_is_state:
  "processParsedResult (\<lambda>k. t) rnd
       (fst (processParsedResult (\<lambda>k. t) rnd ps ps result src))
       (fst (processParsedResult (\<lambda>k. t) rnd ps ps result src)) result src
     = processParsedResult (\<lambda>k. t) rnd ps ps result src"
proof (cases rule: ppr_cases [where result = result and ps = ps])
  case reject
  then show ?thesis by (simp add: ppr_reject)
next
  case (create r tn)
  with again_after_create [OF create(2-4), of t rnd rnd ps src _ src]
  show ?thesis by simp
next
  case (update r tn)
  with again_after_update [OF update(2-4), of t rnd rnd ps src _ src]
  show ?thesis by simp
qed

text \<open>
  Distinct tracking numbers stay distinct under a call whose snapshot is the state, under
  a status toggle and under a deletion.
\<close>

lemma distinct_when_snapshot_is_state:
  assumes "distinct (map trackingNumber ps)"
  shows "distinct (map trackingNumber (fst (processParsedResult clock rnd ps ps result src)))"
  using assms by (simp add: ppr_tracking_numbers)

lemma distinct_after_toggle:
  assumes "distinct (map trackingNumber ps)"
  shows "distinct (map trackingNumber (onToggleStatus i ps))"
proof -
  have "map trackingNumber (onToggleStatus i ps) = map trackingNumber ps"
    by (simp add: onToggleStatus_def)
  with assms show ?thesis by simp
qed

lemma distinct_after_delete:
  assumes "distinct (map trackingNumber ps)"
  shows "distinct (map trackingNumber (onDelete i ps))"
  using assms unfolding onDelete_def by (rule distinct_map_filter)

section \<open>Reconciliation: rejection, creation, update\<close>

text \<open>
  Claim C1. For every collection and every extraction result that is absent, or whose
  \<^verbatim>\<open>trackingNumber\<close> is null or the empty string, \<open>processParsedResult\<close> returns
  \<^verbatim>\<open>false\<close> and the collection is the input collection itself: nothing is added,
  removed or changed. No \<^verbatim>\<open>setPackages\<close> runs on this path, so this holds of the state
  whatever the snapshot of the handler is.
\<close>

theorem C1_untracked_result_is_rejected:
  assumes "result = None \<or> trackingNumber_res (the result) = None
             \<or> trackingNumber_res (the result) = Some []"
  shows "processParsedResult clock rnd packages prev result sourceText = (prev, False)"
proof (rule ppr_reject)
  from assms show "result = None \<or> \<not> truthy (trackingNumber_res (the result))"
    by auto
qed

theorem C1_untracked_result_is_rejected_witness:
  "processParsedResult sample_clock sample_rnd sample_packages sample_packages None
       ''ingen pakke'' = (sample_packages, False)
   \<and> processParsedResult sample_clock sample_rnd sample_packages
       (onDelete ''z9y8x7w6v'' sample_packages) (Some sample_untracked) ''ingen pakke''
     = (onDelete ''z9y8x7w6v'' sample_packages, False)
   \<and> processParsedResult sample_clock sample_rnd sample_packages sample_packages
       (Some (sample_untracked\<lparr>trackingNumber_res := Some []\<rparr>)) ''ingen pakke''
     = (sample_packages, False)"
proof (intro conjI)
  show "processParsedResult sample_clock sample_rnd sample_packages sample_packages None
       ''ingen pakke'' = (sample_packages, False)"
    by (rule C1_untracked_result_is_rejected) simp
  show "processParsedResult sample_clock sample_rnd sample_packages
       (onDelete ''z9y8x7w6v'' sample_packages) (Some sample_untracked) ''ingen pakke''
     = (onDelete ''z9y8x7w6v'' sample_packages, False)"
    by (rule C1_untracked_result_is_rejected) (simp add: sample_untracked_def)
  show "processParsedResult sample_clock sample_rnd sample_packages sample_packages
       (Some (sample_untracked\<lparr>trackingNumber_res := Some []\<rparr>)) ''ingen pakke''
     = (sample_packages, False)"
    by (rule C1_untracked_result_is_rejected) simp
qed

text \<open>
  Claim C2 says that a result whose tracking number no package of the collection has
  yields the collection with a new package in front. The code decides between creation
  and update on the snapshot of the handler, not on the collection. Here the package
  \<open>TNT123\<close> is deleted while the extraction of a screenshot is awaited, so the collection
  has two packages, neither with that tracking number. The call that follows finds
  \<open>TNT123\<close> in its snapshot, takes the update path and makes the changed snapshot the
  new state: its first package is \<open>PN777\<close>, no package has the generated identifier, and
  the deleted package is back under its old identifier.
\<close>

theorem C2_stale_snapshot_updates_where_it_should_create:
  "''TNT123'' \<notin> set (map trackingNumber (onDelete ''z9y8x7w6v'' sample_packages))
   \<and> processParsedResult sample_clock sample_rnd sample_packages
        (onDelete ''z9y8x7w6v'' sample_packages) (Some sample_match) ''Screenshot: gls.png''
      = (sample_packages[1 := (sample_packages ! 1)
            \<lparr>status := READY_FOR_PICKUP, lastUpdated := ''2024-05-01T10:00:00.000Z''\<rparr>], True)
   \<and> trackingNumber (hd (fst (processParsedResult sample_clock sample_rnd sample_packages
        (onDelete ''z9y8x7w6v'' sample_packages) (Some sample_match) ''Screenshot: gls.png'')))
      = ''PN777''
   \<and> sample_rnd \<notin> set (map id_pkg (fst (processParsedResult sample_clock sample_rnd
        sample_packages (onDelete ''z9y8x7w6v'' sample_packages) (Some sample_match)
        ''Screenshot: gls.png'')))
   \<and> tl (fst (processParsedResult sample_clock sample_rnd sample_packages
        (onDelete ''z9y8x7w6v'' sample_packages) (Some sample_match) ''Screenshot: gls.png''))
      \<noteq> onDelete ''z9y8x7w6v'' sample_packages"
  by (simp add: sample_defs processParsedResult_def findIndex_def onDelete_def Let_def)

text \<open>
  Claim C3 says that a result whose tracking number a package of the collection has
  yields a collection of the same length in which every other package is as before. The
  update path copies the snapshot of the handler, not the collection. Here the package
  \<open>DAO42\<close> is deleted while the extraction is awaited, so the collection has two
  packages, one of them \<open>TNT123\<close>. The call that follows returns three packages: the
  deleted one is back.
\<close>

theorem C3_stale_snapshot_restores_deleted_package:
  "''TNT123'' \<in> set (map trackingNumber (onDelete ''m5n6b7v8c'' sample_packages))
   \<and> length (onDelete ''m5n6b7v8c'' sample_packages) = 2
   \<and> length (fst (processParsedResult sample_clock sample_rnd sample_packages
        (onDelete ''m5n6b7v8c'' sample_packages) (Some sample_match) ''Screenshot: gls.png''))
      = 3
   \<and> map trackingNumber (fst (processParsedResult sample_clock sample_rnd sample_packages
        (onDelete ''m5n6b7v8c'' sample_packages) (Some sample_match) ''Screenshot: gls.png''))
      = [''PN777'', ''TNT123'', ''DAO42'']
   \<and> ''DAO42'' \<notin> set (map trackingNumber (onDelete ''m5n6b7v8c'' sample_packages))"
  by (simp add: sample_defs processParsedResult_def findIndex_def onDelete_def Let_def)

text \<open>
  Claim C4 names the placeholder as the string \<open>Unknown supplier\<close>. On the scenario of the
  specification (empty collection, tracking number \<open>TNT123\<close>, carrier GLS, no sender,
  in transit, source text \<open>hello\<close>) the sender of the created package is another string.
\<close>

theorem C4_placeholder_is_not_Unknown_supplier:
  "sender (hd (fst (processParsedResult (\<lambda>k. ''2024-05-01T10:00:00.000Z'') ''k3x9q2m1z'' [] []
       (Some \<lparr>trackingNumber_res = Some ''TNT123'', carrier_res = GLS, sender_res = None,
              status_res = IN_TRANSIT\<rparr>) ''hello''))) \<noteq> ''Unknown supplier''"
  by (simp add: processParsedResult_def findIndex_def placeholder_sender_def)

text \<open>
  Claim C4, amended. When the result omits the sender (null or empty), the package
  built by the create path has as its sender the placeholder of the source, the Danish
  word of ten characters \<open>Leverand\<close>, o with stroke, \<open>r\<close>. The create path is taken when
  the snapshot has no package with the tracking number; the new package is the first of
  the new state whatever the state was.
\<close>

theorem C4_created_sender_defaults_to_Leverandoer:
  assumes "trackingNumber_res r = Some tn" and "tn \<noteq> []"
    and "\<forall>p \<in> set packages. trackingNumber p \<noteq> tn"
    and "sender_res r = None \<or> sender_res r = Some []"
  shows "sender (hd (fst (processParsedResult clock rnd packages prev (Some r) sourceText)))
           = ''Leverand'' @ [CHR 0xF8] @ ''r''"
  using assms(4) unfolding ppr_create [OF assms(1-3)]
  by (auto simp: placeholder_sender_def)

theorem C4_created_sender_defaults_to_Leverandoer_witness:
  "sender (hd (fst (processParsedResult sample_clock sample_rnd sample_packages
      sample_packages (Some sample_blank) ''Screenshot: x.png'')))
           = ''Leverand'' @ [CHR 0xF8] @ ''r''"
  by (rule C4_created_sender_defaults_to_Leverandoer [where tn = "'' ''"])
     (simp_all add: sample_defs)

text \<open>
  Claim C5 says that applying the same result twice in a row gives the collection that
  applying it once gives, the second application finding the package the first one
  created. The second call looks in its own snapshot, and a handler started before the
  first call ended has the snapshot of the first. Here two screenshots of the same
  notification are picked one after the other before either extraction has returned; the
  clock and the generated identifier are the same in both calls. The first call creates
  \<open>BR900\<close>; the second does not find it, creates it again, and the collection after two
  calls has five packages where the collection after one has four.
\<close>

theorem C5_two_calls_in_flight_create_twice:
  "map trackingNumber (fst (processParsedResult (\<lambda>k. ''2024-05-01T10:00:00.000Z'')
        sample_rnd sample_packages sample_packages (Some sample_new) ''Screenshot: br.png''))
      = [''BR900'', ''PN777'', ''TNT123'', ''DAO42'']
   \<and> map trackingNumber (fst (processParsedResult (\<lambda>k. ''2024-05-01T10:00:00.000Z'')
        sample_rnd sample_packages
        (fst (processParsedResult (\<lambda>k. ''2024-05-01T10:00:00.000Z'')
           sample_rnd sample_packages sample_packages (Some sample_new)
           ''Screenshot: br.png''))
        (Some sample_new) ''Screenshot: br.png''))
      = [''BR900'', ''BR900'', ''PN777'', ''TNT123'', ''DAO42'']
   \<and> fst (processParsedResult (\<lambda>k. ''2024-05-01T10:00:00.000Z'')
        sample_rnd sample_packages
        (fst (processParsedResult (\<lambda>k. ''2024-05-01T10:00:00.000Z'')
           sample_rnd sample_packages sample_packages (Some sample_new)
           ''Screenshot: br.png''))
        (Some sample_new) ''Screenshot: br.png'')
      \<noteq> fst (processParsedResult (\<lambda>k. ''2024-05-01T10:00:00.000Z'')
        sample_rnd sample_packages sample_packages (Some sample_new) ''Screenshot: br.png'')"
  by (simp add: sample_defs processParsedResult_def findIndex_def Let_def)

section \<open>Status toggle and view filter\<close>

text \<open>
  Claim C6. For a package at position \<open>k\<close> whose identifier is the one toggled,
  \<open>onToggleStatus\<close> maps \<open>PICKED_UP\<close> to \<open>READY_FOR_PICKUP\<close> and both \<open>IN_TRANSIT\<close> and
  \<open>READY_FOR_PICKUP\<close> to \<open>PICKED_UP\<close>. No toggle yields \<open>IN_TRANSIT\<close>, and two toggles from
  \<open>READY_FOR_PICKUP\<close> give \<open>READY_FOR_PICKUP\<close> again.
\<close>

theorem C6_toggle_is_a_binary_collapse:
  assumes "k < length packages" and "id_pkg (packages ! k) = i"
  shows "status (onToggleStatus i packages ! k)
           = (case status (packages ! k) of
                PICKED_UP \<Rightarrow> READY_FOR_PICKUP
              | IN_TRANSIT \<Rightarrow> PICKED_UP
              | READY_FOR_PICKUP \<Rightarrow> PICKED_UP)
       \<and> status (onToggleStatus i packages ! k) \<noteq> IN_TRANSIT
       \<and> (status (packages ! k) = READY_FOR_PICKUP \<longrightarrow>
            status (onToggleStatus i (onToggleStatus i packages) ! k) = READY_FOR_PICKUP)
       \<and> status (onToggleStatus i (onToggleStatus i packages) ! k) \<noteq> IN_TRANSIT"
proof -
  from assms have once: "onToggleStatus i packages ! k =
      (packages ! k)\<lparr>status := (if status (packages ! k) = PICKED_UP
                                 then READY_FOR_PICKUP else PICKED_UP)\<rparr>"
    by (simp add: toggle_nth)
  from assms(1) have "k < length (onToggleStatus i packages)"
    by (simp add: toggle_length)
  from toggle_nth [OF this, of i] assms(2) once
  have twice: "status (onToggleStatus i (onToggleStatus i packages) ! k) =
      (if status (onToggleStatus i packages ! k) = PICKED_UP
       then READY_FOR_PICKUP else PICKED_UP)"
    by simp
  show ?thesis
    unfolding twice unfolding once
    by (cases "status (packages ! k)") simp_all
qed

theorem C6_toggle_is_a_binary_collapse_witness:
  "status (onToggleStatus ''m5n6b7v8c'' sample_packages ! 2)
           = (case status (sample_packages ! 2) of
                PICKED_UP \<Rightarrow> READY_FOR_PICKUP
              | IN_TRANSIT \<Rightarrow> PICKED_UP
              | READY_FOR_PICKUP \<Rightarrow> PICKED_UP)
       \<and> status (onToggleStatus ''m5n6b7v8c'' sample_packages ! 2) \<noteq> IN_TRANSIT
       \<and> status (sample_packages ! 2) = READY_FOR_PICKUP
       \<and> status (onToggleStatus ''m5n6b7v8c'' (onToggleStatus ''m5n6b7v8c'' sample_packages) ! 2)
            = READY_FOR_PICKUP
       \<and> status (onToggleStatus ''m5n6b7v8c'' (onToggleStatus ''m5n6b7v8c'' sample_packages) ! 2)
            \<noteq> IN_TRANSIT"
proof -
  have h1: "2 < length sample_packages" by (simp add: sample_defs)
  have h2: "id_pkg (sample_packages ! 2) = ''m5n6b7v8c''" by (simp add: sample_defs)
  have h3: "status (sample_packages ! 2) = READY_FOR_PICKUP" by (simp add: sample_defs)
  from C6_toggle_is_a_binary_collapse [OF h1 h2] h3 show ?thesis by blast
qed

text \<open>
  Claim C7. The view filter partitions the collection: the view of the tab \<open>current\<close> is
  the packages whose status is not \<open>PICKED_UP\<close>, the view of the tab \<open>history\<close> those whose
  status is \<open>PICKED_UP\<close>, each in the order of the collection; together they hold every
  package as often as the collection does, and no package is in both.
\<close>

theorem C7_views_partition_the_collection:
  "filteredPackages Tab_current packages = filter (\<lambda>p. status p \<noteq> PICKED_UP) packages
   \<and> filteredPackages Tab_history packages = filter (\<lambda>p. status p = PICKED_UP) packages
   \<and> mset (filteredPackages Tab_current packages) + mset (filteredPackages Tab_history packages)
        = mset packages
   \<and> set (filteredPackages Tab_current packages) \<inter> set (filteredPackages Tab_history packages)
        = {}
   \<and> (\<forall>p \<in> set packages.
         (p \<in> set (filteredPackages Tab_current packages))
           \<noteq> (p \<in> set (filteredPackages Tab_history packages)))"
proof -
  have cur: "filteredPackages Tab_current packages
               = filter (\<lambda>p. status p \<noteq> PICKED_UP) packages"
    by (simp add: filteredPackages_def)
  have hist: "filteredPackages Tab_history packages
               = filter (\<lambda>p. \<not> status p \<noteq> PICKED_UP) packages"
    by (simp add: filteredPackages_def)
  have "mset (filter (\<lambda>p. status p \<noteq> PICKED_UP) packages)
          + mset (filter (\<lambda>p. \<not> status p \<noteq> PICKED_UP) packages) = mset packages"
    unfolding mset_filter by (rule multiset_partition [symmetric])
  then show ?thesis
    unfolding cur hist by auto
qed

theorem C7_views_partition_the_collection_witness:
  "filteredPackages Tab_current sample_packages = [sample_packages ! 1, sample_packages ! 2]
   \<and> filteredPackages Tab_history sample_packages = [sample_packages ! 0]
   \<and> sample_packages ! 0 \<in> set sample_packages
   \<and> (sample_packages ! 0 \<in> set (filteredPackages Tab_current sample_packages))
        \<noteq> (sample_packages ! 0 \<in> set (filteredPackages Tab_history sample_packages))"
proof -
  have cur: "filter (\<lambda>p. status p \<noteq> PICKED_UP) sample_packages
               = [sample_packages ! 1, sample_packages ! 2]"
    by (simp add: sample_defs)
  have hist: "filter (\<lambda>p. status p = PICKED_UP) sample_packages = [sample_packages ! 0]"
    by (simp add: sample_defs)
  have mem: "sample_packages ! 0 \<in> set sample_packages"
    by (simp add: sample_defs)
  from C7_views_partition_the_collection [of sample_packages] cur hist mem
  show ?thesis by metis
qed

section \<open>The invariant, the frame of the toggle, and the emptiness test\<close>

text \<open>
  Claim C8 says that no call of \<open>processParsedResult\<close>, no toggle and no deletion brings
  two packages with the same tracking number into a collection that had none. The lookup
  that is to prevent it reads the snapshot of the handler, while the new package goes in
  front of the state. Here a first screenshot has put \<open>BR900\<close> in front of the three
  sample packages, and the tracking numbers of that state are distinct; a second handler,
  started before, still has the three sample packages as its snapshot. Its call creates
  \<open>BR900\<close> again, and the tracking numbers of the new state are not distinct.
\<close>

theorem C8_stale_snapshot_duplicates_tracking_number:
  "distinct (map trackingNumber
      (fst (processParsedResult sample_clock sample_rnd sample_packages sample_packages
              (Some sample_new) ''Screenshot: a.png'')))
   \<and> \<not> distinct (map trackingNumber
      (fst (processParsedResult sample_clock ''p0o9i8u7y'' sample_packages
              (fst (processParsedResult sample_clock sample_rnd sample_packages
                      sample_packages (Some sample_new) ''Screenshot: a.png''))
              (Some sample_new) ''Screenshot: b.png'')))
   \<and> map trackingNumber
      (fst (processParsedResult sample_clock ''p0o9i8u7y'' sample_packages
              (fst (processParsedResult sample_clock sample_rnd sample_packages
                      sample_packages (Some sample_new) ''Screenshot: a.png''))
              (Some sample_new) ''Screenshot: b.png''))
      = [''BR900'', ''BR900'', ''PN777'', ''TNT123'', ''DAO42'']"
  by (simp add: sample_defs processParsedResult_def findIndex_def Let_def)

text \<open>
  Claim C9. A status toggle changes nothing but the status: identifier, tracking number,
  carrier, sender, \<^verbatim>\<open>receivedDate\<close>, \<^verbatim>\<open>originalText\<close> and \<^verbatim>\<open>lastUpdated\<close> of every package,
  and the length and order of the collection, are as before; a package with another
  identifier is the same package; and every package equals its former self up to the
  status.
\<close>

theorem C9_toggle_changes_only_the_status:
  "map id_pkg (onToggleStatus i packages) = map id_pkg packages
   \<and> map trackingNumber (onToggleStatus i packages) = map trackingNumber packages
   \<and> map carrier (onToggleStatus i packages) = map carrier packages
   \<and> map sender (onToggleStatus i packages) = map sender packages
   \<and> map receivedDate (onToggleStatus i packages) = map receivedDate packages
   \<and> map originalText (onToggleStatus i packages) = map originalText packages
   \<and> map lastUpdated (onToggleStatus i packages) = map lastUpdated packages
   \<and> length (onToggleStatus i packages) = length packages
   \<and> (\<forall>k < length packages. id_pkg (packages ! k) \<noteq> i \<longrightarrow>
          onToggleStatus i packages ! k = packages ! k)
   \<and> (\<forall>k < length packages.
          onToggleStatus i packages ! k
            = (packages ! k)\<lparr>status := status (onToggleStatus i packages ! k)\<rparr>)"
  by (simp add: onToggleStatus_def)

theorem C9_toggle_changes_only_the_status_witness:
  "map lastUpdated (onToggleStatus ''z9y8x7w6v'' sample_packages)
      = [''2024-04-03T17:40:00.000Z'', ''2024-04-28T09:00:00.000Z'', ''2024-04-30T12:30:00.000Z'']
   \<and> map status (onToggleStatus ''z9y8x7w6v'' sample_packages)
      = [PICKED_UP, PICKED_UP, READY_FOR_PICKUP]
   \<and> onToggleStatus ''z9y8x7w6v'' sample_packages ! 0 = sample_packages ! 0
   \<and> onToggleStatus ''z9y8x7w6v'' sample_packages ! 2 = sample_packages ! 2"
proof -
  have a: "map lastUpdated sample_packages
      = [''2024-04-03T17:40:00.000Z'', ''2024-04-28T09:00:00.000Z'', ''2024-04-30T12:30:00.000Z'']"
    by (simp add: sample_defs)
  have b: "(0::nat) < length sample_packages" "id_pkg (sample_packages ! 0) \<noteq> ''z9y8x7w6v''"
    "(2::nat) < length sample_packages" "id_pkg (sample_packages ! 2) \<noteq> ''z9y8x7w6v''"
    by (simp_all add: sample_defs)
  have c: "map status (onToggleStatus ''z9y8x7w6v'' sample_packages)
      = [PICKED_UP, PICKED_UP, READY_FOR_PICKUP]"
    by (simp add: sample_defs onToggleStatus_def)
  from C9_toggle_changes_only_the_status [of "''z9y8x7w6v''" sample_packages] a b c
  show ?thesis by metis
qed



end
